theory Spec2Isabelle
  imports Complex_Main
begin

section \<open>JavaScript values used by the marker and layer code\<close>

text \<open>
  Numbers are modelled as reals (pixel sizes, angles, scale factors) and, for the numeric
  value of a marker type, as integers. A field that may be \<^verbatim>\<open>null\<close> or \<^verbatim>\<open>undefined\<close> is an
  \<open>option\<close>; the source tests such fields with \<^verbatim>\<open>== null\<close>, which is true of both.
  A thrown exception is a value of \<open>js_error\<close>: \<open>Error\<close> is the \<^verbatim>\<open>throw Error(msg)\<close>
  of the source, \<open>TypeError\<close> is what the runtime raises when a property of
  \<^verbatim>\<open>null\<close> is read.
\<close>

datatype js_error = Error string | TypeError string

text \<open>
  \<^verbatim>\<open>Number.prototype.toString\<close> on an integer of magnitude below \<open>10^21\<close>: the decimal
  digits, with a leading minus sign for a negative number.
\<close>

definition digit_char :: "nat \<Rightarrow> char" where
  "digit_char d = ''0123456789'' ! d"

fun nat_to_string :: "nat \<Rightarrow> string" where
  "nat_to_string n =
     (if n < 10 then [digit_char n] else nat_to_string (n div 10) @ [digit_char (n mod 10)])"

declare nat_to_string.simps [simp del]

definition int_to_string :: "int \<Rightarrow> string" where
  "int_to_string i = (if i < 0 then CHR ''-'' # nat_to_string (nat (- i)) else nat_to_string (nat i))"



text \<open>The source's \<^verbatim>\<open>x || d\<close>: \<open>d\<close> when \<open>x\<close> is null, undefined, empty or zero.\<close>

definition or_string :: "string option \<Rightarrow> string \<Rightarrow> string" where
  "or_string v d = (case v of None \<Rightarrow> d | Some s \<Rightarrow> if s = [] then d else s)"

definition or_num :: "real option \<Rightarrow> real \<Rightarrow> real" where
  "or_num v d = (case v of None \<Rightarrow> d | Some r \<Rightarrow> if r = 0 then d else r)"

section \<open>Marker icons: \<^verbatim>\<open>src/models/marker.ts\<close>\<close>

subsection \<open>Data\<close>

record ISize =
  width :: real
  height :: real

record IPoint =
  pt_x :: real
  pt_y :: real

text \<open>
  The enumeration \<^verbatim>\<open>MarkerTypeId\<close> is declared outside the three source files. The six
  members that \<^verbatim>\<open>Marker.CreateMarker\<close> names are constructors; \<open>OtherMarkerType n\<close> is
  any other value of the enumeration's underlying number type, with its numeric value.
\<close>

datatype MarkerTypeId =
    CanvasMarker
  | DynmaicCircleMarker
  | FontMarker
  | RotatedImageMarker
  | RoundedImageMarker
  | ScaledImageMarker
  | OtherMarkerType int

text \<open>A callback is a function supplied by the caller; the model keeps its identity only.\<close>

type_synonym callback_ref = nat

text \<open>
  \<^verbatim>\<open>IMarkerIconInfo\<close>, with the fields that \<^verbatim>\<open>marker.ts\<close> and
  \<^verbatim>\<open>bingmapservice.ts\<close> read or write (\<open>id\<close>, \<open>size\<close> and \<open>text\<close> carry a prefix
  because the plain names are taken in HOL).
\<close>

record IMarkerIconInfo =
  info_id :: "string option"
  markerType :: MarkerTypeId
  rotation :: "real option"
  drawingOffset :: "IPoint option"
  points :: "IPoint list option"
  color :: "string option"
  info_size :: "ISize option"
  strokeWidth :: "real option"
  fontName :: "string option"
  fontSize :: "real option"
  info_text :: "string option"
  url :: "string option"
  scale :: "real option"
  callback :: "callback_ref option"

record IMarkerIconCacheEntry =
  markerIconString :: string
  markerSize :: ISize

subsection \<open>The browser\<close>

text \<open>
  A canvas is the sequence of operations performed on it and on its 2d context, in program
  order. What the browser makes of them is not part of the repository, so it is a
  parameter of every function below (\<open>browser\<close>):
  \<^item> \<open>has_document\<close>: whether the global \<^verbatim>\<open>document\<close> is non-null (the global is
    taken to be declared, as it is in a page; where it is not declared at all, the test
    \<^verbatim>\<open>document == null\<close> itself raises a \<^verbatim>\<open>ReferenceError\<close>);
  \<^item> \<open>toDataURL\<close>: the data URL of a canvas;
  \<^item> \<open>measureText\<close>: the width that \<^verbatim>\<open>ctx.measureText\<close> reports for a font and a text;
  \<^item> \<open>dim\<close>: the number read back from \<^verbatim>\<open>canvas.width\<close>, \<^verbatim>\<open>canvas.height\<close>,
    \<^verbatim>\<open>image.width\<close> or \<^verbatim>\<open>image.height\<close> after a number has been assigned to it
    (these attributes are unsigned integers);
  \<^item> \<open>numToString\<close>: \<^verbatim>\<open>Number.prototype.toString\<close> on an arbitrary number.
\<close>

datatype canvas_op =
    SetWidth real
  | SetHeight real
  | Translate real real
  | Rotate real
  | SetFillStyle string
  | SetFont string
  | SetTextBaseline string
  | BeginPath
  | MoveTo real real
  | LineTo real real
  | Arc real real real real real bool
  | ClosePath
  | Fill
  | Stroke
  | Clip
  | FillText "string option" real real
  | DrawImage string real real
  | DrawImageSized string real real real real

type_synonym canvas = "canvas_op list"

record browser =
  has_document :: bool
  toDataURL :: "canvas \<Rightarrow> string"
  measureText :: "string \<Rightarrow> string option \<Rightarrow> real"
  dim :: "real \<Rightarrow> real"
  numToString :: "real \<Rightarrow> string"

text \<open>
  An image whose \<^verbatim>\<open>onload\<close> handler has been set and that has not been loaded yet.
  The handler is one of three closures of the source; each captures the \<open>iconInfo\<close> of
  its call, the rounded one also \<open>radius\<close> and \<open>offset\<close>. The icon info is captured by
  value: the model takes it that the caller leaves the object alone while the load is
  pending.
\<close>

datatype onload_handler =
    RotatedOnload IMarkerIconInfo
  | RoundedOnload IMarkerIconInfo real IPoint
  | ScaledOnload IMarkerIconInfo

record html_image =
  crossOrigin :: string
  src :: string
  assigned_size :: "ISize option"
  onload :: onload_handler

text \<open>
  The state that the static members of \<^verbatim>\<open>Marker\<close> act on: the private static
  \<open>MarkerCache\<close>, the images waiting for their load event, the number of canvases
  created so far through \<^verbatim>\<open>document.createElement('canvas')\<close>, and the calls made to
  caller-supplied callbacks, oldest first.
\<close>

record world =
  MarkerCache :: "string \<rightharpoonup> IMarkerIconCacheEntry"
  pending :: "html_image list"
  canvases_created :: nat
  callback_calls :: "(callback_ref \<times> string \<times> IMarkerIconInfo) list"

type_synonym 'a result = "js_error + 'a"

subsection \<open>The cache test and the cache write\<close>

text \<open>
  \<^verbatim>\<open>iconInfo.id != null && Marker.MarkerCache.has(iconInfo.id)\<close>, followed by
  \<^verbatim>\<open>Marker.MarkerCache.get(iconInfo.id)\<close>: the entry when both hold.
\<close>

definition cache_lookup :: "world \<Rightarrow> IMarkerIconInfo \<Rightarrow> IMarkerIconCacheEntry option" where
  "cache_lookup w i = (case info_id i of None \<Rightarrow> None | Some k \<Rightarrow> MarkerCache w k)"

text \<open>
  \<^verbatim>\<open>if(iconInfo.id != null) Marker.MarkerCache.set(iconInfo.id, { markerIconString: s,
  markerSize: iconInfo.size })\<close>. \<^verbatim>\<open>Map.set\<close> adds the key or replaces its entry.
\<close>

definition cache_store :: "world \<Rightarrow> string option \<Rightarrow> string \<Rightarrow> ISize \<Rightarrow> world" where
  "cache_store w k s sz =
     (case k of
        None \<Rightarrow> w
      | Some key \<Rightarrow>
          w\<lparr>MarkerCache := (MarkerCache w)(key \<mapsto> \<lparr>markerIconString = s, markerSize = sz\<rparr>)\<rparr>)"

definition create_canvas :: "world \<Rightarrow> world" where
  "create_canvas w = w\<lparr>canvases_created := Suc (canvases_created w)\<rparr>"

definition invoke_callback :: "world \<Rightarrow> callback_ref \<Rightarrow> string \<Rightarrow> IMarkerIconInfo \<Rightarrow> world" where
  "invoke_callback w cb s i = w\<lparr>callback_calls := callback_calls w @ [(cb, s, i)]\<rparr>"

text \<open>
  The rotation about the centre of the canvas that two of the functions perform under
  \<^verbatim>\<open>if (iconInfo.rotation)\<close>: skipped when the rotation is null, undefined or zero.
\<close>

definition rotate_about_centre :: "real \<Rightarrow> real \<Rightarrow> real option \<Rightarrow> canvas" where
  "rotate_about_centre cw ch rot =
     (case rot of
        None \<Rightarrow> []
      | Some r \<Rightarrow>
          if r = 0 then []
          else [Translate (cw * 0.5) (ch * 0.5),
                Rotate (r * pi / 180),
                Translate (- cw * 0.5) (- ch * 0.5)])"

subsection \<open>\<^verbatim>\<open>CreateCanvasMarker\<close>\<close>

definition canvas_marker_ops :: "browser \<Rightarrow> IMarkerIconInfo \<Rightarrow> ISize \<Rightarrow> IPoint list \<Rightarrow> canvas" where
  "canvas_marker_ops br i sz ps =
     [SetWidth (width sz), SetHeight (height sz)]
     @ rotate_about_centre (dim br (width sz)) (dim br (height sz)) (rotation i)
     @ [SetFillStyle (or_string (color i) ''red''), BeginPath]
     @ (case drawingOffset i of None \<Rightarrow> [] | Some d \<Rightarrow> [MoveTo (pt_x d) (pt_y d)])
     @ map (\<lambda>p. LineTo (pt_x p) (pt_y p)) ps
     @ [ClosePath, Fill, Stroke]"

definition canvas_required :: string where
  "canvas_required = ''IMarkerIconInfo.size, and IMarkerIConInfo.points are required for canvas markers.''"

definition Marker_CreateCanvasMarker ::
  "browser \<Rightarrow> world \<Rightarrow> IMarkerIconInfo option \<Rightarrow> (string \<times> IMarkerIconInfo \<times> world) result" where
  "Marker_CreateCanvasMarker br w io =
     (if \<not> has_document br then
        Inl (Error ''Document context (window.document) is required for canvas markers.'')
      else case io of
        None \<Rightarrow> Inl (Error canvas_required)
      | Some i \<Rightarrow>
         (case info_size i of
            None \<Rightarrow> Inl (Error canvas_required)
          | Some sz \<Rightarrow>
             (case points i of
                None \<Rightarrow> Inl (Error canvas_required)
              | Some ps \<Rightarrow>
                 (case cache_lookup w i of
                    Some mi \<Rightarrow> Inr (markerIconString mi, i\<lparr>info_size := Some (markerSize mi)\<rparr>, w)
                  | None \<Rightarrow>
                      let s = toDataURL br (canvas_marker_ops br i sz ps)
                      in Inr (s, i, cache_store (create_canvas w) (info_id i) s sz)))))"

subsection \<open>\<^verbatim>\<open>CreateDynmaicCircleMarker\<close>\<close>

definition dq :: string where
  "dq = [CHR 0x22]"

definition circle_svg :: "browser \<Rightarrow> IMarkerIconInfo \<Rightarrow> ISize \<Rightarrow> string" where
  "circle_svg br i sz =
     (let sw = or_num (strokeWidth i) 0 in
      concat
        [''<svg xmlns='' @ dq @ ''http://www.w3.org/2000/svg'' @ dq @ '' width='' @ dq,
         numToString br (width sz),
         dq @ '' height='' @ dq,
         numToString br (width sz),
         dq @ ''><circle cx='' @ dq,
         numToString br (width sz / 2),
         dq @ '' cy='' @ dq,
         numToString br (width sz / 2),
         dq @ '' r='' @ dq,
         numToString br (width sz / 2 - sw),
         dq @ '' stroke='' @ dq,
         or_string (color i) ''red'',
         dq @ '' stroke-width='' @ dq,
         numToString br sw,
         dq @ '' fill='' @ dq,
         or_string (color i) ''red'',
         dq @ ''/></svg>''])"

definition circle_required :: string where
  "circle_required = ''IMarkerIconInfo.size is required for dynamic circle markers.''"

definition Marker_CreateDynmaicCircleMarker ::
  "browser \<Rightarrow> world \<Rightarrow> IMarkerIconInfo option \<Rightarrow> (string \<times> IMarkerIconInfo \<times> world) result" where
  "Marker_CreateDynmaicCircleMarker br w io =
     (if \<not> has_document br then
        Inl (Error ''Document context (window.document) is required for dynamic circle markers.'')
      else case io of
        None \<Rightarrow> Inl (Error circle_required)
      | Some i \<Rightarrow>
         (case info_size i of
            None \<Rightarrow> Inl (Error circle_required)
          | Some sz \<Rightarrow>
             (case cache_lookup w i of
                Some mi \<Rightarrow> Inr (markerIconString mi, i\<lparr>info_size := Some (markerSize mi)\<rparr>, w)
              | None \<Rightarrow>
                  let s = circle_svg br i sz
                  in Inr (s, i, cache_store w (info_id i) s sz))))"

subsection \<open>\<^verbatim>\<open>CreateFontBasedMarker\<close>\<close>

text \<open>
  The guard of the source reads \<^verbatim>\<open>iconInfo == null || iconInfo.fontName == null ||
  iconInfo.fontSize == null\<close>; \<^verbatim>\<open>iconInfo.text\<close> is passed to \<^verbatim>\<open>measureText\<close> and
  \<^verbatim>\<open>fillText\<close> as it is.
\<close>

definition font_marker_font :: "browser \<Rightarrow> real \<Rightarrow> string \<Rightarrow> string" where
  "font_marker_font br fs fn = numToString br fs @ ''px '' @ fn"

definition font_marker_size :: "browser \<Rightarrow> IMarkerIconInfo \<Rightarrow> real \<Rightarrow> string \<Rightarrow> ISize" where
  "font_marker_size br i fs fn =
     \<lparr>width = dim br (measureText br (font_marker_font br fs fn) (info_text i)),
      height = dim br fs\<rparr>"

definition font_marker_ops :: "browser \<Rightarrow> IMarkerIconInfo \<Rightarrow> real \<Rightarrow> string \<Rightarrow> canvas" where
  "font_marker_ops br i fs fn =
     (let font = font_marker_font br fs fn; sz = font_marker_size br i fs fn in
      [SetFont font, SetWidth (measureText br font (info_text i)), SetHeight fs]
      @ rotate_about_centre (width sz) (height sz) (rotation i)
      @ [SetFont font, SetTextBaseline ''top'', SetFillStyle (or_string (color i) ''red''),
         FillText (info_text i) 0 0])"

definition font_required :: string where
  "font_required = ''IMarkerIconInfo.fontName, IMarkerIconInfo.fontSize and IMarkerIConInfo.text are required for font based markers.''"

definition Marker_CreateFontBasedMarker ::
  "browser \<Rightarrow> world \<Rightarrow> IMarkerIconInfo option \<Rightarrow> (string \<times> IMarkerIconInfo \<times> world) result" where
  "Marker_CreateFontBasedMarker br w io =
     (if \<not> has_document br then
        Inl (Error ''Document context (window.document) is required for font based markers'')
      else case io of
        None \<Rightarrow> Inl (Error font_required)
      | Some i \<Rightarrow>
         (case fontName i of
            None \<Rightarrow> Inl (Error font_required)
          | Some fn \<Rightarrow>
             (case fontSize i of
                None \<Rightarrow> Inl (Error font_required)
              | Some fs \<Rightarrow>
                 (case cache_lookup w i of
                    Some mi \<Rightarrow> Inr (markerIconString mi, i\<lparr>info_size := Some (markerSize mi)\<rparr>, w)
                  | None \<Rightarrow>
                      let sz = font_marker_size br i fs fn;
                          s = toDataURL br (font_marker_ops br i fs fn)
                      in Inr (s, i\<lparr>info_size := Some sz\<rparr>,
                              cache_store (create_canvas w) (info_id i) s sz)))))"

subsection \<open>The three image markers\<close>

text \<open>
  Each of them returns the empty string. On a cache hit the cached image goes to the
  callback at once; otherwise an image is created and its \<^verbatim>\<open>onload\<close> handler, run by
  the browser when the image has been loaded, draws the icon, stores it and calls the
  callback.
\<close>

definition add_pending :: "world \<Rightarrow> html_image \<Rightarrow> world" where
  "add_pending w img = w\<lparr>pending := pending w @ [img]\<rparr>"

definition rotated_required :: string where
  "rotated_required = ''IMarkerIconInfo.rotation, IMarkerIconInfo.url and IMarkerIConInfo.callback are required for rotated image markers.''"

definition Marker_CreateRotatedImageMarker ::
  "browser \<Rightarrow> world \<Rightarrow> IMarkerIconInfo option \<Rightarrow> (string \<times> IMarkerIconInfo \<times> world) result" where
  "Marker_CreateRotatedImageMarker br w io =
     (if \<not> has_document br then
        Inl (Error ''Document context (window.document) is required for rotated image markers'')
      else case io of
        None \<Rightarrow> Inl (Error rotated_required)
      | Some i \<Rightarrow>
         (case rotation i of
            None \<Rightarrow> Inl (Error rotated_required)
          | Some rot \<Rightarrow>
             (case url i of
                None \<Rightarrow> Inl (Error rotated_required)
              | Some u \<Rightarrow>
                 (case callback i of
                    None \<Rightarrow> Inl (Error rotated_required)
                  | Some cb \<Rightarrow>
                     (case cache_lookup w i of
                        Some mi \<Rightarrow>
                          let i' = i\<lparr>info_size := Some (markerSize mi)\<rparr>
                          in Inr ([], i', invoke_callback w cb (markerIconString mi) i')
                      | None \<Rightarrow>
                          Inr ([], i,
                               add_pending w
                                 \<lparr>crossOrigin = ''anonymous'', src = u,
                                  assigned_size = info_size i,
                                  onload = RotatedOnload i\<rparr>))))))"

definition rounded_required :: string where
  "rounded_required = ''IMarkerIconInfo.size, IMarkerIconInfo.url and IMarkerIConInfo.callback are required for rounded image markers.''"

definition Marker_CreateRoundedImageMarker ::
  "browser \<Rightarrow> world \<Rightarrow> IMarkerIconInfo option \<Rightarrow> (string \<times> IMarkerIconInfo \<times> world) result" where
  "Marker_CreateRoundedImageMarker br w io =
     (if \<not> has_document br then
        Inl (Error ''Document context (window.document) is required for rounded image markers'')
      else case io of
        None \<Rightarrow> Inl (Error rounded_required)
      | Some i \<Rightarrow>
         (case info_size i of
            None \<Rightarrow> Inl (Error rounded_required)
          | Some sz \<Rightarrow>
             (case url i of
                None \<Rightarrow> Inl (Error rounded_required)
              | Some u \<Rightarrow>
                 (case callback i of
                    None \<Rightarrow> Inl (Error rounded_required)
                  | Some cb \<Rightarrow>
                     (case cache_lookup w i of
                        Some mi \<Rightarrow>
                          let i' = i\<lparr>info_size := Some (markerSize mi)\<rparr>
                          in Inr ([], i', invoke_callback w cb (markerIconString mi) i')
                      | None \<Rightarrow>
                          let radius = width sz / 2;
                              offset = (case drawingOffset i of
                                          None \<Rightarrow> \<lparr>pt_x = 0, pt_y = 0\<rparr>
                                        | Some d \<Rightarrow> d)
                          in Inr ([], i,
                                  add_pending w
                                    \<lparr>crossOrigin = ''anonymous'', src = u,
                                     assigned_size = None,
                                     onload = RoundedOnload i radius offset\<rparr>))))))"

definition scaled_required :: string where
  "scaled_required = ''IMarkerIconInfo.scale, IMarkerIconInfo.url and IMarkerIConInfo.callback are required for scaled image markers.''"

definition Marker_CreateScaledImageMarker ::
  "browser \<Rightarrow> world \<Rightarrow> IMarkerIconInfo option \<Rightarrow> (string \<times> IMarkerIconInfo \<times> world) result" where
  "Marker_CreateScaledImageMarker br w io =
     (if \<not> has_document br then
        Inl (Error ''Document context (window.document) is required for scaled image markers'')
      else case io of
        None \<Rightarrow> Inl (Error scaled_required)
      | Some i \<Rightarrow>
         (case scale i of
            None \<Rightarrow> Inl (Error scaled_required)
          | Some k \<Rightarrow>
             (case url i of
                None \<Rightarrow> Inl (Error scaled_required)
              | Some u \<Rightarrow>
                 (case callback i of
                    None \<Rightarrow> Inl (Error scaled_required)
                  | Some cb \<Rightarrow>
                     (case cache_lookup w i of
                        Some mi \<Rightarrow>
                          let i' = i\<lparr>info_size := Some (markerSize mi)\<rparr>
                          in Inr ([], i', invoke_callback w cb (markerIconString mi) i')
                      | None \<Rightarrow>
                          Inr ([], i,
                               add_pending w
                                 \<lparr>crossOrigin = ''anonymous'', src = u,
                                  assigned_size = None,
                                  onload = ScaledOnload i\<rparr>))))))"

subsection \<open>The \<^verbatim>\<open>onload\<close> handlers\<close>









subsection \<open>\<^verbatim>\<open>CreateMarker\<close>\<close>

text \<open>
  The \<^verbatim>\<open>switch\<close> on \<^verbatim>\<open>iconInfo.markerType\<close>. Reading \<open>markerType\<close> of a null
  \<open>iconInfo\<close> raises a \<open>TypeError\<close>. The message of the final \<^verbatim>\<open>throw\<close> ends with the
  number of the marker type, as string concatenation renders it.
\<close>

definition Marker_CreateMarker ::
  "browser \<Rightarrow> world \<Rightarrow> IMarkerIconInfo option \<Rightarrow> (string \<times> IMarkerIconInfo \<times> world) result" where
  "Marker_CreateMarker br w io =
     (case io of
        None \<Rightarrow> Inl (TypeError ''Cannot read property markerType of null'')
      | Some i \<Rightarrow>
         (case markerType i of
            CanvasMarker \<Rightarrow> Marker_CreateCanvasMarker br w io
          | DynmaicCircleMarker \<Rightarrow> Marker_CreateDynmaicCircleMarker br w io
          | FontMarker \<Rightarrow> Marker_CreateFontBasedMarker br w io
          | RotatedImageMarker \<Rightarrow> Marker_CreateRotatedImageMarker br w io
          | RoundedImageMarker \<Rightarrow> Marker_CreateRoundedImageMarker br w io
          | ScaledImageMarker \<Rightarrow> Marker_CreateScaledImageMarker br w io
          | OtherMarkerType n \<Rightarrow> Inl (Error (''Unsupported marker type: '' @ int_to_string n))))"

subsection \<open>The guards\<close>

text \<open>
  The first two statements of each of the six functions throw when the document is
  missing or when one of the fields that the function tests is null. \<open>passes_guards\<close>
  is the negation of these tests, marker type by marker type, as the source has them.
\<close>

definition passes_guards :: "browser \<Rightarrow> IMarkerIconInfo \<Rightarrow> bool" where
  "passes_guards br i =
     (has_document br \<and>
      (case markerType i of
         CanvasMarker \<Rightarrow> info_size i \<noteq> None \<and> points i \<noteq> None
       | DynmaicCircleMarker \<Rightarrow> info_size i \<noteq> None
       | FontMarker \<Rightarrow> fontName i \<noteq> None \<and> fontSize i \<noteq> None
       | RotatedImageMarker \<Rightarrow> rotation i \<noteq> None \<and> url i \<noteq> None \<and> callback i \<noteq> None
       | RoundedImageMarker \<Rightarrow> info_size i \<noteq> None \<and> url i \<noteq> None \<and> callback i \<noteq> None
       | ScaledImageMarker \<Rightarrow> scale i \<noteq> None \<and> url i \<noteq> None \<and> callback i \<noteq> None
       | OtherMarkerType n \<Rightarrow> False))"

text \<open>The three marker types whose image reaches the caller through the callback.\<close>

definition by_callback :: "MarkerTypeId \<Rightarrow> bool" where
  "by_callback t = (t = RotatedImageMarker \<or> t = RoundedImageMarker \<or> t = ScaledImageMarker)"

subsection \<open>Runs of the marker code\<close>





definition empty_world :: world where
  "empty_world = \<lparr>MarkerCache = Map.empty, pending = [], canvases_created = 0, callback_calls = []\<rparr>"

section \<open>The layer wrapper: \<^verbatim>\<open>models/binglayer.ts\<close>\<close>

text \<open>
  \<^verbatim>\<open>Microsoft.Maps.Layer\<close> belongs to the Bing Maps SDK. The model of it has what
  \<open>BingLayer\<close> writes: the property \<^verbatim>\<open>id\<close> that \<open>SetOptions\<close> assigns, the primitives
  in insertion order, and the visibility. \<^verbatim>\<open>add\<close> appends a primitive, \<^verbatim>\<open>remove\<close>
  takes its first occurrence out, \<^verbatim>\<open>setPrimitives\<close> replaces them all. A primitive is
  an SDK object, known by its identity. What the method \<^verbatim>\<open>getId()\<close> of a layer
  returns is the SDK's business and a parameter of \<open>GetOptions\<close> below: the source files
  do not say whether it reads the property \<^verbatim>\<open>id\<close>.
\<close>

type_synonym primitive = nat

record native_layer =
  layer_id :: string
  layer_primitives :: "primitive list"
  layer_visible :: bool

definition layer_add :: "native_layer \<Rightarrow> primitive \<Rightarrow> native_layer" where
  "layer_add l p = l\<lparr>layer_primitives := layer_primitives l @ [p]\<rparr>"

definition layer_remove :: "native_layer \<Rightarrow> primitive \<Rightarrow> native_layer" where
  "layer_remove l p = l\<lparr>layer_primitives := remove1 p (layer_primitives l)\<rparr>"

definition layer_setPrimitives :: "native_layer \<Rightarrow> primitive list \<Rightarrow> native_layer" where
  "layer_setPrimitives l ps = l\<lparr>layer_primitives := ps\<rparr>"

text \<open>
  An entity is a \<^verbatim>\<open>Marker\<close>, an \<^verbatim>\<open>InfoWindow\<close> or any other object. The model has the
  two properties that \<open>BingLayer\<close> reads, under the spellings of the source. \<open>Marker\<close>
  declares \<^verbatim>\<open>NativePrimitve\<close>; no class of the source files declares
  \<^verbatim>\<open>NativePRimitive\<close>.
\<close>

record entity =
  NativePrimitve :: "primitive option"
  NativePRimitive :: "primitive option"

definition BingLayer_AddEntity :: "native_layer \<Rightarrow> entity \<Rightarrow> native_layer" where
  "BingLayer_AddEntity l e =
     (case NativePrimitve e of None \<Rightarrow> l | Some p \<Rightarrow> layer_add l p)"

text \<open>
  \<^verbatim>\<open>if(entity.NativePRimitive) this._layer.remove(entity.NativePrimitve)\<close>. When the test
  passes and \<^verbatim>\<open>NativePrimitve\<close> is undefined, \<^verbatim>\<open>remove(undefined)\<close> finds nothing.
\<close>

definition BingLayer_RemoveEntity :: "native_layer \<Rightarrow> entity \<Rightarrow> native_layer" where
  "BingLayer_RemoveEntity l e =
     (case NativePRimitive e of
        None \<Rightarrow> l
      | Some q \<Rightarrow> (case NativePrimitve e of None \<Rightarrow> l | Some p \<Rightarrow> layer_remove l p))"

definition BingLayer_SetEntities :: "native_layer \<Rightarrow> entity list \<Rightarrow> native_layer" where
  "BingLayer_SetEntities l es =
     layer_setPrimitives l (List.map_filter NativePrimitve es)"

subsection \<open>Layer options\<close>

text \<open>
  \<^verbatim>\<open>ILayerOptions.id\<close> is a JavaScript number, that is a double: the type \<open>'n\<close>.
  \<open>SetOptions\<close> turns it into a string with \<^verbatim>\<open>toString()\<close> and \<open>GetOptions\<close> turns the
  string that \<^verbatim>\<open>getId()\<close> returns into a number with \<^verbatim>\<open>Number(...)\<close>. Both
  conversions belong to the language and are parameters here, as is \<^verbatim>\<open>getId\<close>.
\<close>

record 'n ILayerOptions =
  layer_option_id :: 'n

definition BingLayer_SetOptions ::
  "('n \<Rightarrow> string) \<Rightarrow> native_layer \<Rightarrow> 'n ILayerOptions \<Rightarrow> native_layer" where
  "BingLayer_SetOptions toString l options = l\<lparr>layer_id := toString (layer_option_id options)\<rparr>"

definition BingLayer_GetOptions ::
  "(native_layer \<Rightarrow> string) \<Rightarrow> (string \<Rightarrow> 'n) \<Rightarrow> native_layer \<Rightarrow> 'n ILayerOptions" where
  "BingLayer_GetOptions getId Number l = \<lparr>layer_option_id = Number (getId l)\<rparr>"

definition BingLayer_GetVisible :: "native_layer \<Rightarrow> bool" where
  "BingLayer_GetVisible l = layer_visible l"

definition BingLayer_SetVisible :: "native_layer \<Rightarrow> bool \<Rightarrow> native_layer" where
  "BingLayer_SetVisible l v = l\<lparr>layer_visible := v\<rparr>"

section \<open>The map service: \<^verbatim>\<open>services/bingmapservice.ts\<close>\<close>

subsection \<open>Map life cycle\<close>
















subsection \<open>\<^verbatim>\<open>CreateMarker\<close>\<close>





section \<open>Concrete inputs for the examples\<close>

text \<open>
  A browser with a document, whose data URL spells out the width and the height given to
  the canvas and has a dot for every other operation, whose text is eight pixels wide
  per character, and whose dimensions and number strings are whole numbers.
\<close>

fun sample_op_tag :: "canvas_op \<Rightarrow> string" where
  "sample_op_tag (SetWidth v) = ''w'' @ int_to_string \<lfloor>v\<rfloor>"
| "sample_op_tag (SetHeight v) = ''h'' @ int_to_string \<lfloor>v\<rfloor>"
| "sample_op_tag other = ''.''"

definition sample_browser :: browser where
  "sample_browser =
     \<lparr>has_document = True,
      toDataURL = (\<lambda>c. ''data:image/png;'' @ concat (map sample_op_tag c)),
      measureText = (\<lambda>font t. 8 * real (length (case t of None \<Rightarrow> ''undefined'' | Some x \<Rightarrow> x))),
      dim = (\<lambda>v. of_int \<lfloor>v\<rfloor>),
      numToString = (\<lambda>v. int_to_string \<lfloor>v\<rfloor>)\<rparr>"

text \<open>The object literal \<^verbatim>\<open>{ markerType: t }\<close>.\<close>

definition blank_info :: "MarkerTypeId \<Rightarrow> IMarkerIconInfo" where
  "blank_info t =
     \<lparr>info_id = None, markerType = t, rotation = None, drawingOffset = None, points = None,
      color = None, info_size = None, strokeWidth = None, fontName = None, fontSize = None,
      info_text = None, url = None, scale = None, callback = None\<rparr>"

text \<open>A cache that holds one icon, under the id \<^verbatim>\<open>a\<close>.\<close>

definition sample_entry :: IMarkerIconCacheEntry where
  "sample_entry = \<lparr>markerIconString = ''data:cached'', markerSize = \<lparr>width = 10, height = 20\<rparr>\<rparr>"

definition cached_world :: world where
  "cached_world = empty_world\<lparr>MarkerCache := [''a'' \<mapsto> sample_entry]\<rparr>"

text \<open>
  Requests: a font marker without a text; a rotated image with the cached id; a canvas
  marker with the cached id and no points; an arrow on a canvas; a scaled image, by scale
  factor, under the id \<^verbatim>\<open>truck\<close>.
\<close>

definition font_without_text :: IMarkerIconInfo where
  "font_without_text = (blank_info FontMarker)\<lparr>fontName := Some ''Arial'', fontSize := Some 12\<rparr>"

definition rotated_cached :: IMarkerIconInfo where
  "rotated_cached =
     (blank_info RotatedImageMarker)
       \<lparr>info_id := Some ''a'', rotation := Some 90, url := Some ''car.png'', callback := Some 0\<rparr>"

definition canvas_cached_no_points :: IMarkerIconInfo where
  "canvas_cached_no_points =
     (blank_info CanvasMarker)\<lparr>info_id := Some ''a'', info_size := Some \<lparr>width = 48, height = 48\<rparr>\<rparr>"



text \<open>
  More requests with the cached id: a second rotated image, with another picture, angle
  and colour; a rounded image without a url. And one more for a new id \<^verbatim>\<open>b\<close>.
\<close>

definition rotated_cached_other :: IMarkerIconInfo where
  "rotated_cached_other =
     rotated_cached\<lparr>rotation := Some 0, url := Some ''bus.png'', color := Some ''blue''\<rparr>"

definition rounded_cached_no_url :: IMarkerIconInfo where
  "rounded_cached_no_url =
     (blank_info RoundedImageMarker)
       \<lparr>info_id := Some ''a'', info_size := Some \<lparr>width = 32, height = 32\<rparr>, callback := Some 0\<rparr>"










definition sample_layer :: native_layer where
  "sample_layer = \<lparr>layer_id = ''1'', layer_primitives = [7], layer_visible = True\<rparr>"

section \<open>Numbers and their strings\<close>






section \<open>Properties of \<^verbatim>\<open>Marker.CreateMarker\<close>\<close>

subsection \<open>Dispatch on the marker type\<close>

lemma canvas_not_unsupported:
  "Marker_CreateCanvasMarker br w io \<noteq> Inl (Error (''Unsupported marker type: '' @ m))"
  by (simp add: Marker_CreateCanvasMarker_def canvas_required_def Let_def split: option.splits)

lemma circle_not_unsupported:
  "Marker_CreateDynmaicCircleMarker br w io \<noteq> Inl (Error (''Unsupported marker type: '' @ m))"
  by (simp add: Marker_CreateDynmaicCircleMarker_def circle_required_def Let_def split: option.splits)

lemma font_not_unsupported:
  "Marker_CreateFontBasedMarker br w io \<noteq> Inl (Error (''Unsupported marker type: '' @ m))"
  by (simp add: Marker_CreateFontBasedMarker_def font_required_def Let_def split: option.splits)

lemma rotated_not_unsupported:
  "Marker_CreateRotatedImageMarker br w io \<noteq> Inl (Error (''Unsupported marker type: '' @ m))"
  by (simp add: Marker_CreateRotatedImageMarker_def rotated_required_def Let_def split: option.splits)

lemma rounded_not_unsupported:
  "Marker_CreateRoundedImageMarker br w io \<noteq> Inl (Error (''Unsupported marker type: '' @ m))"
  by (simp add: Marker_CreateRoundedImageMarker_def rounded_required_def Let_def split: option.splits)

lemma scaled_not_unsupported:
  "Marker_CreateScaledImageMarker br w io \<noteq> Inl (Error (''Unsupported marker type: '' @ m))"
  by (simp add: Marker_CreateScaledImageMarker_def scaled_required_def Let_def split: option.splits)

lemmas not_unsupported =
  canvas_not_unsupported circle_not_unsupported font_not_unsupported
  rotated_not_unsupported rounded_not_unsupported scaled_not_unsupported

text \<open>
  Claim C8. \<^verbatim>\<open>Marker.CreateMarker(iconInfo)\<close> hands the call to the function of the
  marker type for each of the six supported values of \<open>markerType\<close>, and for every
  other value throws an \<open>Error\<close> whose message is \<^verbatim>\<open>Unsupported marker type: \<close> followed by
  the number of the marker type. The error of the dispatch itself arises exactly for the
  values outside the six: none of the six functions throws a message of that form.
\<close>

theorem CreateMarker_dispatch:
  "Marker_CreateMarker br w (Some i) =
     (case markerType i of
        CanvasMarker \<Rightarrow> Marker_CreateCanvasMarker br w (Some i)
      | DynmaicCircleMarker \<Rightarrow> Marker_CreateDynmaicCircleMarker br w (Some i)
      | FontMarker \<Rightarrow> Marker_CreateFontBasedMarker br w (Some i)
      | RotatedImageMarker \<Rightarrow> Marker_CreateRotatedImageMarker br w (Some i)
      | RoundedImageMarker \<Rightarrow> Marker_CreateRoundedImageMarker br w (Some i)
      | ScaledImageMarker \<Rightarrow> Marker_CreateScaledImageMarker br w (Some i)
      | OtherMarkerType n \<Rightarrow> Inl (Error (''Unsupported marker type: '' @ int_to_string n)))
   \<and> ((\<exists>m. Marker_CreateMarker br w (Some i) = Inl (Error (''Unsupported marker type: '' @ m)))
        \<longleftrightarrow> markerType i \<notin> {CanvasMarker, DynmaicCircleMarker, FontMarker,
                              RotatedImageMarker, RoundedImageMarker, ScaledImageMarker})"
  by (cases "markerType i")
     (simp_all add: Marker_CreateMarker_def not_unsupported del: append.simps)

theorem CreateMarker_dispatch_witness:
  "Marker_CreateMarker sample_browser empty_world (Some (blank_info (OtherMarkerType 7)))
     = Inl (Error ''Unsupported marker type: 7'')
   \<and> Marker_CreateMarker sample_browser empty_world (Some (blank_info DynmaicCircleMarker))
     = Inl (Error ''IMarkerIconInfo.size is required for dynamic circle markers.'')"
  using CreateMarker_dispatch [of sample_browser empty_world "blank_info (OtherMarkerType 7)"]
        CreateMarker_dispatch [of sample_browser empty_world "blank_info DynmaicCircleMarker"]
  by (simp add: blank_info_def int_to_string_def nat_to_string.simps digit_char_def
        Marker_CreateDynmaicCircleMarker_def sample_browser_def circle_required_def)

subsection \<open>The guards\<close>

lemmas create_defs =
  Marker_CreateCanvasMarker_def Marker_CreateDynmaicCircleMarker_def
  Marker_CreateFontBasedMarker_def Marker_CreateRotatedImageMarker_def
  Marker_CreateRoundedImageMarker_def Marker_CreateScaledImageMarker_def

text \<open>A call throws exactly when the document or a field that its function tests is missing.\<close>

lemma CreateMarker_throws_iff:
  "(\<exists>e. Marker_CreateMarker br w (Some i) = Inl e) \<longleftrightarrow> \<not> passes_guards br i"
  by (cases "markerType i")
     (auto simp: Marker_CreateMarker_def passes_guards_def create_defs Let_def
           split: option.splits)

text \<open>
  Claim C4. Each function throws an \<open>Error\<close> exactly when a field that its marker type
  requires is null, and the error of the font based marker names \<open>fontName\<close>,
  \<open>fontSize\<close> and \<open>text\<close> as required. The guard of \<open>CreateFontBasedMarker\<close> tests the
  first two only: a font marker with a font name, a font size and no text is not
  rejected. It is drawn (with the text that the canvas makes of \<^verbatim>\<open>undefined\<close>), its
  size is set from the measured text, and its image is returned.
\<close>

theorem font_marker_without_text_is_drawn:
  "Marker_CreateFontBasedMarker sample_browser empty_world (Some font_without_text) =
     Inr (''data:image/png;.w72h12....'',
          font_without_text\<lparr>info_size := Some \<lparr>width = 72, height = 12\<rparr>\<rparr>,
          empty_world\<lparr>canvases_created := 1\<rparr>)"
  by (simp add: font_without_text_def blank_info_def
      Marker_CreateFontBasedMarker_def sample_browser_def cache_lookup_def Let_def
      font_marker_ops_def font_marker_size_def font_marker_font_def rotate_about_centre_def
      cache_store_def create_canvas_def empty_world_def int_to_string_def nat_to_string.simps
      digit_char_def or_string_def)

subsection \<open>Requests whose id is in the cache\<close>

lemma cache_hit_result:
  assumes "passes_guards br i" and "info_id i = Some k" and "MarkerCache w k = Some mi"
  shows "Marker_CreateMarker br w (Some i) =
           Inr (if by_callback (markerType i) then [] else markerIconString mi,
                i\<lparr>info_size := Some (markerSize mi)\<rparr>,
                if by_callback (markerType i)
                then invoke_callback w (the (callback i)) (markerIconString mi)
                       (i\<lparr>info_size := Some (markerSize mi)\<rparr>)
                else w)"
  using assms
  by (cases "markerType i")
     (auto simp: Marker_CreateMarker_def passes_guards_def create_defs by_callback_def
           cache_lookup_def Let_def)

text \<open>
  Claim C1, amended. For every marker type and every icon info that passes the guards of
  its function and whose id is in the cache, nothing is drawn again: no canvas is
  created, no image is requested and the cache stays as it is. The canvas, circle and
  font markers return the cached image string as it is and change nothing else. The
  rotated, rounded and scaled image markers return the empty string and pass the cached
  image string to the callback of the icon info. (As stated, the claim fails for the
  three image markers, which return the empty string, and for a request that does not
  pass the guards, which throws although its id is cached.)
\<close>

theorem cache_hit_delivers_cached_image:
  assumes "passes_guards br i" and "info_id i = Some k" and "MarkerCache w k = Some mi"
  shows "\<exists>s w'. Marker_CreateMarker br w (Some i)
                  = Inr (s, i\<lparr>info_size := Some (markerSize mi)\<rparr>, w')
          \<and> (if by_callback (markerType i)
             then s = [] \<and>
                  (\<exists>cb. callback i = Some cb \<and>
                        w' = invoke_callback w cb (markerIconString mi)
                               (i\<lparr>info_size := Some (markerSize mi)\<rparr>))
             else s = markerIconString mi \<and> w' = w)
          \<and> canvases_created w' = canvases_created w
          \<and> pending w' = pending w
          \<and> MarkerCache w' = MarkerCache w"
proof -
  have cb: "by_callback (markerType i) \<Longrightarrow> \<exists>cb. callback i = Some cb"
    using assms(1) by (auto simp: passes_guards_def by_callback_def)
  show ?thesis
    using cache_hit_result [OF assms] cb
    by (auto simp: invoke_callback_def)
qed

theorem cache_hit_delivers_cached_image_witness:
  "passes_guards sample_browser rotated_cached
   \<and> info_id rotated_cached = Some ''a''
   \<and> MarkerCache cached_world ''a'' = Some sample_entry
   \<and> Marker_CreateMarker sample_browser cached_world (Some rotated_cached)
       = Inr ([], rotated_cached\<lparr>info_size := Some \<lparr>width = 10, height = 20\<rparr>\<rparr>,
              invoke_callback cached_world 0 ''data:cached''
                (rotated_cached\<lparr>info_size := Some \<lparr>width = 10, height = 20\<rparr>\<rparr>))"
proof -
  have g: "passes_guards sample_browser rotated_cached"
    by (simp add: passes_guards_def sample_browser_def rotated_cached_def blank_info_def)
  have k: "info_id rotated_cached = Some ''a''"
    by (simp add: rotated_cached_def blank_info_def)
  have c: "MarkerCache cached_world ''a'' = Some sample_entry"
    by (simp add: cached_world_def)
  have t: "by_callback (markerType rotated_cached)" "callback rotated_cached = Some 0"
    by (simp_all add: by_callback_def rotated_cached_def blank_info_def)
  show ?thesis
    using g k c t cache_hit_delivers_cached_image [OF g k c]
    by (auto simp: sample_entry_def)
qed

text \<open>
  The claim as stated fails twice over: with the id \<^verbatim>\<open>a\<close> cached under the image
  \<^verbatim>\<open>data:cached\<close>, a rotated image marker with that id returns the empty string (the
  image goes to callback \<open>0\<close>), and a canvas marker with that id and no points throws.
\<close>

theorem cached_id_returns_empty_string_or_throws:
  "MarkerCache cached_world ''a'' = Some sample_entry
   \<and> markerIconString sample_entry = ''data:cached''
   \<and> info_id rotated_cached = Some ''a''
   \<and> Marker_CreateMarker sample_browser cached_world (Some rotated_cached)
       = Inr ([], rotated_cached\<lparr>info_size := Some \<lparr>width = 10, height = 20\<rparr>\<rparr>,
              invoke_callback cached_world 0 ''data:cached''
                (rotated_cached\<lparr>info_size := Some \<lparr>width = 10, height = 20\<rparr>\<rparr>))
   \<and> info_id canvas_cached_no_points = Some ''a''
   \<and> Marker_CreateMarker sample_browser cached_world (Some canvas_cached_no_points)
       = Inl (Error ''IMarkerIconInfo.size, and IMarkerIConInfo.points are required for canvas markers.'')"
  by (simp add: Marker_CreateMarker_def rotated_cached_def canvas_cached_no_points_def
        blank_info_def Marker_CreateRotatedImageMarker_def Marker_CreateCanvasMarker_def
        sample_browser_def cache_lookup_def Let_def cached_world_def invoke_callback_def
        sample_entry_def empty_world_def canvas_required_def)

text \<open>
  Claim C2, amended. For every one of the six functions and every icon info that passes
  the guards of the function and whose id is in the cache, the call sets the size of the
  icon info to the cached size, and the fields other than the id have no effect on the
  image: two such requests of the same marker type with the same id get the same string
  back, and the same images reach their callbacks. (As stated, for every icon info with
  a cached id, the claim fails where a guard does: the fields that the function tests
  decide whether the call throws.)
\<close>

theorem cache_hit_ignores_other_fields:
  assumes "passes_guards br i" and "passes_guards br j"
    and "markerType j = markerType i"
    and "info_id i = Some k" and "info_id j = Some k"
    and "MarkerCache w k = Some mi"
  shows "\<exists>s wi wj.
           Marker_CreateMarker br w (Some i) = Inr (s, i\<lparr>info_size := Some (markerSize mi)\<rparr>, wi)
         \<and> Marker_CreateMarker br w (Some j) = Inr (s, j\<lparr>info_size := Some (markerSize mi)\<rparr>, wj)
         \<and> map (fst \<circ> snd) (callback_calls wi) = map (fst \<circ> snd) (callback_calls wj)
         \<and> MarkerCache wi = MarkerCache w \<and> MarkerCache wj = MarkerCache w"
  using cache_hit_result [OF assms(1,4,6)] cache_hit_result [OF assms(2,5,6)] assms(3)
  by (auto simp: invoke_callback_def)

theorem cache_hit_ignores_other_fields_witness:
  "passes_guards sample_browser rotated_cached
   \<and> passes_guards sample_browser rotated_cached_other
   \<and> markerType rotated_cached_other = markerType rotated_cached
   \<and> info_id rotated_cached = Some ''a'' \<and> info_id rotated_cached_other = Some ''a''
   \<and> url rotated_cached_other \<noteq> url rotated_cached
   \<and> MarkerCache cached_world ''a'' = Some sample_entry
   \<and> fst (projr (Marker_CreateMarker sample_browser cached_world (Some rotated_cached_other)))
       = fst (projr (Marker_CreateMarker sample_browser cached_world (Some rotated_cached)))
   \<and> info_size (fst (snd (projr
         (Marker_CreateMarker sample_browser cached_world (Some rotated_cached_other)))))
       = Some \<lparr>width = 10, height = 20\<rparr>
   \<and> map (fst \<circ> snd) (callback_calls (snd (snd (projr
         (Marker_CreateMarker sample_browser cached_world (Some rotated_cached_other))))))
       = [''data:cached'']"
proof -
  have g: "passes_guards sample_browser rotated_cached"
    "passes_guards sample_browser rotated_cached_other"
    by (simp_all add: passes_guards_def sample_browser_def rotated_cached_other_def
          rotated_cached_def blank_info_def)
  have t: "markerType rotated_cached_other = markerType rotated_cached"
    by (simp add: rotated_cached_other_def)
  have k: "info_id rotated_cached = Some ''a''" "info_id rotated_cached_other = Some ''a''"
    by (simp_all add: rotated_cached_other_def rotated_cached_def blank_info_def)
  have c: "MarkerCache cached_world ''a'' = Some sample_entry"
    by (simp add: cached_world_def)
  have u: "url rotated_cached_other \<noteq> url rotated_cached"
    by (simp add: rotated_cached_other_def rotated_cached_def blank_info_def)
  have calls: "callback_calls cached_world = []"
    by (simp add: cached_world_def empty_world_def)
  have r: "Marker_CreateMarker sample_browser cached_world (Some rotated_cached)
            = Inr ([], rotated_cached\<lparr>info_size := Some \<lparr>width = 10, height = 20\<rparr>\<rparr>,
                   invoke_callback cached_world 0 ''data:cached''
                     (rotated_cached\<lparr>info_size := Some \<lparr>width = 10, height = 20\<rparr>\<rparr>))"
    by (simp add: Marker_CreateMarker_def rotated_cached_def blank_info_def
        Marker_CreateRotatedImageMarker_def sample_browser_def cache_lookup_def Let_def
        cached_world_def invoke_callback_def sample_entry_def empty_world_def)
  show ?thesis
    using g t k c u cache_hit_ignores_other_fields [OF g(1) g(2) t k(1) k(2) c]
    by (auto simp: r sample_entry_def invoke_callback_def calls)
qed

text \<open>
  The claim as stated fails for a rounded image marker whose id is cached and whose url
  is missing: the call throws, and so neither adopts the cached size nor yields the
  cached image.
\<close>

theorem cached_id_without_url_throws:
  "info_id rounded_cached_no_url = Some ''a''
   \<and> MarkerCache cached_world ''a'' = Some sample_entry
   \<and> Marker_CreateMarker sample_browser cached_world (Some rounded_cached_no_url)
       = Inl (Error ''IMarkerIconInfo.size, IMarkerIconInfo.url and IMarkerIConInfo.callback are required for rounded image markers.'')"
  by (simp add: Marker_CreateMarker_def rounded_cached_no_url_def blank_info_def
        Marker_CreateRoundedImageMarker_def sample_browser_def cached_world_def
        rounded_required_def)

subsection \<open>Requests without an id\<close>






subsection \<open>The cache over time\<close>

















section \<open>Properties of \<^verbatim>\<open>BingLayer\<close>\<close>

subsection \<open>Entities\<close>

lemma AddEntity_adds:
  "NativePrimitve e = Some p \<Longrightarrow>
   layer_primitives (BingLayer_AddEntity l e) = layer_primitives l @ [p]"
  by (simp add: BingLayer_AddEntity_def layer_add_def)

lemma AddEntity_without_primitive:
  "NativePrimitve e = None \<Longrightarrow> BingLayer_AddEntity l e = l"
  by (simp add: BingLayer_AddEntity_def)

lemma RemoveEntity_without_primitive:
  "NativePrimitve e = None \<Longrightarrow> BingLayer_RemoveEntity l e = l"
  by (simp add: BingLayer_RemoveEntity_def split: option.splits)

lemma RemoveEntity_tests_other_property:
  "NativePRimitive e = None \<Longrightarrow> BingLayer_RemoveEntity l e = l"
  by (simp add: BingLayer_RemoveEntity_def)

text \<open>
  Claim C5. \<open>BingLayer\<close> forwards to the native layer: \<open>AddEntity\<close> adds the native
  primitive of an entity and \<open>RemoveEntity\<close> removes it. The code does the first and not
  the second. A marker has the property \<^verbatim>\<open>NativePrimitve\<close> and no property
  \<^verbatim>\<open>NativePRimitive\<close>, which is the one that \<open>RemoveEntity\<close> tests: added to an empty
  layer, the marker's pushpin \<open>7\<close> is in the layer; removed from the layer that holds it,
  the pushpin is still there.
\<close>

theorem RemoveEntity_leaves_marker_in_layer:
  "BingLayer_AddEntity (sample_layer\<lparr>layer_primitives := []\<rparr>)
       \<lparr>NativePrimitve = Some 7, NativePRimitive = None\<rparr> = sample_layer
   \<and> BingLayer_RemoveEntity sample_layer
       \<lparr>NativePrimitve = Some 7, NativePRimitive = None\<rparr> = sample_layer"
  by (simp add: BingLayer_AddEntity_def BingLayer_RemoveEntity_def layer_add_def sample_layer_def)

section \<open>Properties of \<^verbatim>\<open>BingMapService\<close>\<close>

subsection \<open>One map at a time\<close>















subsection \<open>The default icon of a marker\<close>




end
